theory Spec2Isabelle
  imports Main "HOL-Library.Sublist"
begin

section \<open>Values, requests, replies and the log\<close>

text \<open>
  The request-lifecycle layer of the LogeTogo API (\<^verbatim>\<open>apps/api/src\<close>): the security plugin,
  the system routes, the global not-found and error handlers and the start-up and shut-down
  sequence of \<^verbatim>\<open>server.ts\<close>.

  JavaScript values that end up in a response body or a log line are JSON-like trees. Strings
  are byte strings (UTF-8), numbers are integers (no claim here depends on a fraction).
\<close>

datatype jsval =
    JUndefined
  | JNull
  | JBool bool
  | JNum int
  | JStr string
  | JArr "jsval list"
  | JObj "(string \<times> jsval) list"

text \<open>An HTTP header or cookie value that may be absent: \<^verbatim>\<open>string | undefined\<close>.\<close>

definition optStr :: "string option \<Rightarrow> jsval" where
  "optStr v = (case v of None \<Rightarrow> JUndefined | Some s \<Rightarrow> JStr s)"

text \<open>
  The part of a Fastify request the code reads. \<open>headers\<close> maps a lower-case header name to
  its value; \<open>cookies\<close> is \<^verbatim>\<open>undefined\<close> (\<open>None\<close>) when no cookie parser ran; \<open>query\<close> is
  \<open>None\<close> when the parsed query string is not an object.
\<close>

record request =
  reqMethod :: string
  url :: string
  ip :: string
  headers :: "(string \<times> string) list"
  cookies :: "(string \<times> string) list option"
  query :: "(string \<times> jsval) list option"
  reqId :: string

definition header :: "request \<Rightarrow> string \<Rightarrow> string option" where
  "header request name = map_of (headers request) name"

datatype log_level = LInfo | LWarn | LError | LFatal

record log_entry =
  level :: log_level
  logData :: "(string \<times> jsval) list"
  msg :: string

text \<open>
  The process environment: \<^verbatim>\<open>process.env.NODE_ENV\<close> and \<^verbatim>\<open>process.env.JWT_SECRET\<close>, each
  possibly unset.
\<close>

record env =
  NODE_ENV :: "string option"
  JWT_SECRET :: "string option"

text \<open>
  Text outside ASCII is kept as its UTF-8 bytes; the emoji that decorate the log messages of
  the source are left out of the model's log messages.
\<close>

definition e_acute :: string where
  "e_acute = [CHR 0xC3, CHR 0xA9]"

text \<open>
  A reply under construction: \<^verbatim>\<open>reply.code(n)\<close> sets \<open>statusCode\<close>, \<^verbatim>\<open>reply.send(b)\<close> sets the
  body and marks the reply as sent. A handler that returns an object has it sent with the
  status the reply holds, 200 unless changed. \<^verbatim>\<open>reply.code(n)\<close> accepts the statuses from 100 to
  599 and throws for any other number: \<open>code\<close> is its effect on the reply, written where the
  source passes a literal status (201, 401, 404, 500), and \<open>replyCode\<close> is the call with its
  check, written where the status is computed.
\<close>

record reply =
  statusCode :: int
  sent :: bool
  body :: jsval

definition freshReply :: reply where
  "freshReply = \<lparr>statusCode = 200, sent = False, body = JUndefined\<rparr>"

definition code :: "int \<Rightarrow> reply \<Rightarrow> reply" where
  "code n rep = rep\<lparr>statusCode := n\<rparr>"

datatype reply_error = FST_ERR_BAD_STATUS_CODE int

definition replyCode :: "int \<Rightarrow> reply \<Rightarrow> reply_error + reply" where
  "replyCode n rep =
     (if 100 \<le> n \<and> n \<le> 599 then Inr (code n rep) else Inl (FST_ERR_BAD_STATUS_CODE n))"

definition send :: "jsval \<Rightarrow> reply \<Rightarrow> reply" where
  "send b rep = rep\<lparr>sent := True, body := b\<rparr>"

text \<open>The value of a key of a response body, when the body is an object that has the key.\<close>

definition bodyField :: "reply \<Rightarrow> string \<Rightarrow> jsval option" where
  "bodyField rep k = (case body rep of JObj kvs \<Rightarrow> map_of kvs k | _ \<Rightarrow> None)"

definition logField :: "log_entry \<Rightarrow> string \<Rightarrow> jsval option" where
  "logField l k = map_of (logData l) k"

section \<open>Security plugin\<close>

subsection \<open>Deployment mode\<close>

text \<open>
  \<^verbatim>\<open>const isDev = process.env.NODE_ENV === 'development'\<close> and
  \<^verbatim>\<open>const isProd = process.env.NODE_ENV === 'production'\<close> (\<^verbatim>\<open>plugins/security.ts\<close>).
\<close>

definition isDev :: "env \<Rightarrow> bool" where
  "isDev e = (NODE_ENV e = Some ''development'')"

definition isProd :: "env \<Rightarrow> bool" where
  "isProd e = (NODE_ENV e = Some ''production'')"

subsection \<open>Rate-limiter key\<close>

text \<open>
  \<^verbatim>\<open>keyGenerator\<close>:
  \<^verbatim>\<open>request.headers['x-forwarded-for'] || request.headers['x-real-ip'] || request.ip\<close>.
  JavaScript's \<^verbatim>\<open>a || b\<close> is \<^verbatim>\<open>a\<close> when \<^verbatim>\<open>a\<close> is truthy and \<^verbatim>\<open>b\<close> otherwise; \<^verbatim>\<open>undefined\<close> and
  the empty string are the falsy values such a header can take (the runtime joins a repeated
  header of these names into one string).
\<close>

definition truthy :: "string option \<Rightarrow> bool" where
  "truthy v = (case v of None \<Rightarrow> False | Some s \<Rightarrow> s \<noteq> [])"

definition orElse :: "string option \<Rightarrow> string \<Rightarrow> string" where
  "orElse a b = (case a of None \<Rightarrow> b | Some s \<Rightarrow> (if s \<noteq> [] then s else b))"

definition keyGenerator :: "request \<Rightarrow> string" where
  "keyGenerator request =
     orElse (header request ''x-forwarded-for'')
       (orElse (header request ''x-real-ip'') (ip request))"

text \<open>
  The precedence rule in the specification's words: of a list of candidates that may be
  absent, the first non-empty one wins, and the fallback is taken when there is none.
\<close>

fun firstNonEmpty :: "string option list \<Rightarrow> string \<Rightarrow> string" where
  "firstNonEmpty [] fallback = fallback"
| "firstNonEmpty (None # cs) fallback = firstNonEmpty cs fallback"
| "firstNonEmpty (Some s # cs) fallback = (if s \<noteq> [] then s else firstNonEmpty cs fallback)"

text \<open>\<^verbatim>\<open>skip\<close>: the two health-check URLs bypass the limiter.\<close>

definition skip :: "request \<Rightarrow> bool" where
  "skip request = (url request = ''/health'' \<or> url request = ''/api/system/health'')"

subsection \<open>Token extraction\<close>

text \<open>
  \<^verbatim>\<open>extractToken\<close> of the JWT \<^verbatim>\<open>verify\<close> options. It returns the token or \<^verbatim>\<open>null\<close> (\<open>None\<close>),
  together with what it logged.
  \<^enum> \<^verbatim>\<open>authHeader && authHeader.startsWith('Bearer ')\<close>: \<^verbatim>\<open>authHeader.substring(7)\<close>;
  \<^enum> \<^verbatim>\<open>cookies?.authToken\<close> truthy: that cookie;
  \<^enum> \<^verbatim>\<open>isDev\<close>, the query an object and \<^verbatim>\<open>typeof query.token === 'string'\<close>: a warning and
    \<^verbatim>\<open>query.token\<close>.
\<close>

definition startsWith :: "string \<Rightarrow> string \<Rightarrow> bool" where
  "startsWith s p = (take (length p) s = p)"

definition substring :: "string \<Rightarrow> nat \<Rightarrow> string" where
  "substring s n = drop n s"

definition queryTokenWarning :: log_entry where
  "queryTokenWarning =
     \<lparr>level = LWarn, logData = [], msg = ''Token envoy'' @ e_acute @ '' via query param (dev uniquement)''\<rparr>"

definition extractToken :: "env \<Rightarrow> request \<Rightarrow> string option \<times> log_entry list" where
  "extractToken e request =
     (let fromQuery =
            (case (if isDev e then query request else None) of
               Some q \<Rightarrow>
                 (case map_of q ''token'' of
                    Some (JStr t) \<Rightarrow> (Some t, [queryTokenWarning])
                  | _ \<Rightarrow> (None, []))
             | None \<Rightarrow> (None, []));
          authToken = (case cookies request of None \<Rightarrow> None | Some cs \<Rightarrow> map_of cs ''authToken'');
          fromCookie = (if truthy authToken then (authToken, []) else fromQuery)
      in case header request ''authorization'' of
           Some authHeader \<Rightarrow>
             (if authHeader \<noteq> [] \<and> startsWith authHeader ''Bearer ''
              then (Some (substring authHeader 7), [])
              else fromCookie)
         | None \<Rightarrow> fromCookie)"





subsection \<open>Token verification and the authenticate decorator\<close>

text \<open>
  \<^verbatim>\<open>request.jwtVerify()\<close> belongs to the JWT library, which is not part of this repository.
  What the plugin fixes is the extractor above and the issuer and audience it passes on. The
  library's part is two parameters: \<open>verifyToken\<close>, which checks signature, issuer, audience
  and expiry of a token and returns its payload (\<open>Inr\<close>) or the message of the error it throws
  (\<open>Inl\<close>), and \<open>noTokenMessage\<close>, the message of the error thrown when the extractor yields no
  token (\<^verbatim>\<open>null\<close> or the empty string).
\<close>

record jwt =
  verifyToken :: "string \<Rightarrow> string + jsval"
  noTokenMessage :: string

definition jwtVerify :: "jwt \<Rightarrow> env \<Rightarrow> request \<Rightarrow> (string + jsval) \<times> log_entry list" where
  "jwtVerify lib e request =
     (case extractToken e request of
        (None, lg) \<Rightarrow> (Inl (noTokenMessage lib), lg)
      | (Some t, lg) \<Rightarrow> (if t = [] then (Inl (noTokenMessage lib), lg) else (verifyToken lib t, lg)))"

text \<open>
  The \<^verbatim>\<open>authenticate\<close> decorator: \<^verbatim>\<open>try { await request.jwtVerify() } catch (err) { warn; 401 }\<close>.
  Its result is \<open>Inl\<close> when it throws and \<open>Inr\<close> when it returns; it returns the reply, the
  payload it attached to the request (\<^verbatim>\<open>request.user\<close>, on success) and what was logged.
\<close>

definition authFailureLog :: "string \<Rightarrow> request \<Rightarrow> log_entry" where
  "authFailureLog errMessage request =
     \<lparr>level = LWarn,
      logData = [(''error'', JStr errMessage), (''url'', JStr (url request)),
                 (''method'', JStr (reqMethod request)), (''ip'', JStr (ip request))],
      msg = ''Tentative d'' @ [CHR 0x27] @ ''authentification '' @ e_acute @ ''chou'' @ e_acute @ ''e''\<rparr>"

definition unauthorizedBody :: jsval where
  "unauthorizedBody =
     JObj [(''error'', JStr (''Non autoris'' @ e_acute)),
           (''message'', JStr ''Token manquant ou invalide''),
           (''code'', JStr ''UNAUTHORIZED'')]"

definition authenticate ::
  "jwt \<Rightarrow> env \<Rightarrow> request \<Rightarrow> reply \<Rightarrow> string + (reply \<times> jsval option \<times> log_entry list)" where
  "authenticate lib e request rep =
     (case jwtVerify lib e request of
        (Inr payload, lg) \<Rightarrow> Inr (rep, Some payload, lg)
      | (Inl errMessage, lg) \<Rightarrow>
          Inr (send unauthorizedBody (code 401 rep), None, lg @ [authFailureLog errMessage request]))"

text \<open>
  A route guarded by the decorator lists it as a \<^verbatim>\<open>preHandler\<close> hook. How a hook and a handler
  are chained is the framework's, not this repository's; \<open>guardedRoute\<close> writes out its contract
  for an asynchronous hook: when the hook throws, the error leaves the route (to the error
  handler); when the hook has sent the reply, the hook chain stops and the handler is not
  called; otherwise the handler runs. The handler is any function of the request, the
  authenticated payload, the state \<open>'s\<close> it may write to, and the reply.
\<close>

definition guardedRoute ::
  "jwt \<Rightarrow> env \<Rightarrow> (request \<Rightarrow> jsval option \<Rightarrow> 's \<Rightarrow> reply \<Rightarrow> reply \<times> 's) \<Rightarrow> request \<Rightarrow> 's
     \<Rightarrow> string + (reply \<times> 's \<times> log_entry list)" where
  "guardedRoute lib e handler request st =
     (case authenticate lib e request freshReply of
        Inl err \<Rightarrow> Inl err
      | Inr (rep, user, lg) \<Rightarrow>
          (if sent rep then Inr (rep, st, lg)
           else (case handler request user st rep of (rep', st') \<Rightarrow> Inr (rep', st', lg))))"

subsection \<open>Mode-dependent configuration\<close>

text \<open>
  What \<^verbatim>\<open>securityPlugin\<close> configures as a function of the environment: the options of CORS,
  helmet, the rate limiter and JWT whose value depends on \<open>isDev\<close> or \<open>isProd\<close>, and whether the
  development-only route \<^verbatim>\<open>/api/security/test\<close> is added. Options that are the same in every
  mode are not part of the record.
\<close>

datatype cors_origin = AllOrigins | AllowList "string list"

record hsts_options =
  hstsMaxAge :: nat
  includeSubDomains :: bool
  preload :: bool

record security_config =
  corsOrigin :: cors_origin
  corsMaxAge :: nat
  connectSrc :: "string list"
  upgradeInsecureRequests :: bool
  hsts :: "hsts_options option"
  rateLimitMax :: nat
  jwtSecret :: string
  cookieSecure :: bool
  cookieSameSite :: string
  securityTestRoute :: bool

definition productionOrigins :: "string list" where
  "productionOrigins =
     [''https://logetogo.tg'', ''https://www.logetogo.tg'',
      ''https://admin.logetogo.tg'', ''https://app.logetogo.tg'']"

definition defaultJwtSecret :: string where
  "defaultJwtSecret = ''dev-jwt-secret-32-chars-minimum-change''"

text \<open>
  \<^verbatim>\<open>secret: process.env.JWT_SECRET || (() => { if (isProd) throw ...; warn; return default })()\<close>:
  an unset or empty variable is falsy; \<open>Inl\<close> is the message of the error thrown.
\<close>

definition jwtSecretOption :: "env \<Rightarrow> string + (string \<times> log_entry list)" where
  "jwtSecretOption e =
     (case (case JWT_SECRET e of Some s \<Rightarrow> (if s \<noteq> [] then Some s else None) | None \<Rightarrow> None) of
        Some s \<Rightarrow> Inr (s, [])
      | None \<Rightarrow>
          (if isProd e then Inl ''JWT_SECRET est obligatoire en production !''
           else Inr (defaultJwtSecret,
                     [\<lparr>level = LWarn, logData = [],
                       msg = ''Utilisation de la cl'' @ e_acute @ '' JWT par d'' @ e_acute
                             @ ''faut (dev uniquement)''\<rparr>])))"

definition securityPlugin :: "env \<Rightarrow> string + (security_config \<times> log_entry list)" where
  "securityPlugin e =
     (case jwtSecretOption e of
        Inl err \<Rightarrow> Inl err
      | Inr (secret, lg) \<Rightarrow>
          Inr (\<lparr>corsOrigin = (if isDev e then AllOrigins else AllowList productionOrigins),
                corsMaxAge = (if isDev e then 300 else 86400),
                connectSrc = filter (\<lambda>s. s \<noteq> [])
                               [[CHR 0x27] @ ''self'' @ [CHR 0x27],
                                if isDev e then ''http://localhost:*'' else []],
                upgradeInsecureRequests = isProd e,
                hsts = (if isProd e
                        then Some \<lparr>hstsMaxAge = 31536000, includeSubDomains = True, preload = True\<rparr>
                        else None),
                rateLimitMax = (if isDev e then 1000 else 100),
                jwtSecret = secret,
                cookieSecure = isProd e,
                cookieSameSite = (if isProd e then ''strict'' else ''lax''),
                securityTestRoute = isDev e\<rparr>,
               lg))"

section \<open>Server: global handlers and health routes\<close>

subsection \<open>Mode and runtime readings\<close>

text \<open>
  \<^verbatim>\<open>server.ts\<close> has its own reading of the mode:
  \<^verbatim>\<open>const NODE_ENV = process.env.NODE_ENV ?? 'development'\<close> and
  \<^verbatim>\<open>const IS_DEV = NODE_ENV === 'development'\<close>. \<^verbatim>\<open>??\<close> replaces only an unset variable.
\<close>

definition nodeEnv :: "env \<Rightarrow> string" where
  "nodeEnv e = (case NODE_ENV e of None \<Rightarrow> ''development'' | Some m \<Rightarrow> m)"

definition IS_DEV :: "env \<Rightarrow> bool" where
  "IS_DEV e = (nodeEnv e = ''development'')"

text \<open>
  What a handler reads from the clock and the process: the ISO timestamp of
  \<^verbatim>\<open>new Date().toISOString()\<close>, the uptime in whole seconds, the package version if set, the heap
  figures (taken as already rounded) and the time the database took to answer the probe.
\<close>

record runtime =
  nowISO :: string
  uptimeSeconds :: int
  npm_package_version :: "string option"
  heapUsedMB :: int
  heapTotalMB :: int
  heapPercentage :: int
  queryTime :: int

definition version :: "runtime \<Rightarrow> string" where
  "version rt = (case npm_package_version rt of None \<Rightarrow> ''1.0.0'' | Some v \<Rightarrow> v)"

subsection \<open>The store\<close>

text \<open>
  Modelled from the spec: the persistence collaborator. The handlers reach the relational
  store through a client that is not under \<^verbatim>\<open>src/\<close>; the specification treats it as an opaque
  collaborator with count and create operations per entity, whose operations fail when the
  database is down. \<open>reachable\<close> says whether the store answers queries, \<open>writable\<close> whether an
  insert into \<^verbatim>\<open>health_checks\<close> succeeds, \<open>healthChecks\<close> holds the rows of that table. A failed
  operation raises (\<open>Inl\<close>) and leaves the table as it was; a successful create adds one row.
\<close>

record hc_row =
  hcStatus :: string
  hcMessage :: string

record database =
  reachable :: bool
  writable :: bool
  healthChecks :: "hc_row list"

definition queryRaw :: "database \<Rightarrow> string + unit" where
  "queryRaw db = (if reachable db then Inr () else Inl ''database unreachable'')"

definition healthCheckCreate :: "hc_row \<Rightarrow> database \<Rightarrow> string + database" where
  "healthCheckCreate row db =
     (if reachable db \<and> writable db then Inr (db\<lparr>healthChecks := healthChecks db @ [row]\<rparr>)
      else Inl ''health check write failed'')"

definition healthCheckCount :: "database \<Rightarrow> nat" where
  "healthCheckCount db = length (healthChecks db)"

subsection \<open>Health routes\<close>

text \<open>
  \<^verbatim>\<open>GET /health\<close> of \<^verbatim>\<open>server.ts\<close>. The handler reads the clock and the heap only; the store is
  an argument here to make explicit that the handler neither reads nor writes it.
\<close>

definition rootHealth ::
  "env \<Rightarrow> runtime \<Rightarrow> request \<Rightarrow> database \<Rightarrow> reply \<times> database \<times> log_entry list" where
  "rootHealth e rt request db =
     (send (JObj [(''status'', JStr ''healthy''),
                  (''timestamp'', JStr (nowISO rt)),
                  (''uptime'', JNum (uptimeSeconds rt)),
                  (''version'', JStr (version rt)),
                  (''environment'', JStr (nodeEnv e)),
                  (''memory'', JObj [(''used'', JNum (heapUsedMB rt)), (''total'', JNum (heapTotalMB rt))])])
        freshReply,
      db, [])"

text \<open>
  \<^verbatim>\<open>GET /health\<close> of \<^verbatim>\<open>routes/system.ts\<close>, mounted under \<^verbatim>\<open>/api/system\<close>. The \<^verbatim>\<open>try\<close> block runs the
  raw query, then writes a health-check row; either failure lands in the \<^verbatim>\<open>catch\<close>, which sets
  \<^verbatim>\<open>dbStatus\<close> to \<^verbatim>\<open>disconnected\<close> and logs. \<^verbatim>\<open>dbResponseTime\<close> is assigned between the two.
\<close>

definition healthProbeErrorLog :: "string \<Rightarrow> log_entry" where
  "healthProbeErrorLog err =
     \<lparr>level = LError, logData = [(''err'', JStr err)], msg = ''Erreur lors du health check database''\<rparr>"

definition systemHealth ::
  "env \<Rightarrow> runtime \<Rightarrow> request \<Rightarrow> database \<Rightarrow> reply \<times> database \<times> log_entry list" where
  "systemHealth e rt request db =
     (case (case queryRaw db of
              Inl err \<Rightarrow> (''disconnected'', 0, db, [healthProbeErrorLog err])
            | Inr _ \<Rightarrow>
                (case healthCheckCreate
                        \<lparr>hcStatus = ''healthy'', hcMessage = ''Health check from '' @ ip request\<rparr> db of
                   Inl err \<Rightarrow> (''disconnected'', queryTime rt, db, [healthProbeErrorLog err])
                 | Inr db' \<Rightarrow> (''connected'', queryTime rt, db', [])))
      of (dbStatus, dbResponseTime, db', lg) \<Rightarrow>
        (send (JObj [(''status'', JStr (if dbStatus = ''connected'' then ''healthy'' else ''degraded'')),
                     (''timestamp'', JStr (nowISO rt)),
                     (''uptime'', JNum (uptimeSeconds rt)),
                     (''version'', JStr (version rt)),
                     (''environment'', JStr (nodeEnv e)),
                     (''services'',
                      JObj [(''database'', JObj [(''status'', JStr dbStatus),
                                                 (''responseTime'', JNum dbResponseTime)]),
                            (''memory'', JObj [(''used'', JNum (heapUsedMB rt)),
                                               (''total'', JNum (heapTotalMB rt)),
                                               (''percentage'', JNum (heapPercentage rt))])])])
           freshReply,
         db', lg))"

subsection \<open>Not-found handler\<close>

text \<open>
  \<^verbatim>\<open>setNotFoundHandler\<close>: the \<^verbatim>\<open>preValidation\<close> hook logs a warning, the handler answers 404.
\<close>

definition notFoundLog :: "request \<Rightarrow> log_entry" where
  "notFoundLog request =
     \<lparr>level = LWarn,
      logData = [(''method'', JStr (reqMethod request)), (''url'', JStr (url request)),
                 (''userAgent'', optStr (header request ''user-agent'')),
                 (''referer'', optStr (header request ''referer'')),
                 (''ip'', JStr (ip request))],
      msg = ''Route non trouv'' @ e_acute @ ''e''\<rparr>"

definition notFoundHandler :: "env \<Rightarrow> runtime \<Rightarrow> request \<Rightarrow> reply \<times> log_entry list" where
  "notFoundHandler e rt request =
     (send (JObj ([(''error'', JStr ''Not Found''),
                   (''message'', JStr (''Route '' @ reqMethod request @ '' '' @ url request
                                         @ '' non trouv'' @ e_acute @ ''e'')),
                   (''statusCode'', JNum 404),
                   (''timestamp'', JStr (nowISO rt))]
                  @ (if IS_DEV e
                     then [(''suggestion'',
                            JStr (''V'' @ e_acute @ ''rifiez les routes disponibles sur la documentation API'')),
                           (''availableRoutes'', JArr [JStr ''GET /'', JStr ''GET /health''])]
                     else [])))
        (code 404 freshReply),
      [notFoundLog request])"

text \<open>
  Which handler a request reaches is the router's decision, and the router is the
  framework's: \<open>router\<close> is any function from a request to the matched route's handler, \<open>None\<close>
  when no registered route matches. An unmatched request goes to the not-found handler.
\<close>

definition dispatch ::
  "(request \<Rightarrow> (request \<Rightarrow> 's \<Rightarrow> reply \<times> 's \<times> log_entry list) option) \<Rightarrow> env \<Rightarrow> runtime
     \<Rightarrow> request \<Rightarrow> 's \<Rightarrow> reply \<times> 's \<times> log_entry list" where
  "dispatch router e rt request st =
     (case router request of
        Some handler \<Rightarrow> handler request st
      | None \<Rightarrow> (case notFoundHandler e rt request of (rep, lg) \<Rightarrow> (rep, st, lg)))"

subsection \<open>Error handler\<close>

text \<open>
  The error a route raised: \<^verbatim>\<open>Error & { statusCode?: number; validation?: unknown[] }\<close>.
\<close>

record js_error =
  errName :: "string option"
  message :: string
  errStatusCode :: "int option"
  stack :: "string option"
  validation :: "jsval list option"

text \<open>\<^verbatim>\<open>s.split(c)\<close> for a one-character separator.\<close>

fun split :: "char \<Rightarrow> string \<Rightarrow> string list" where
  "split c [] = [[]]"
| "split c (x # xs) =
     (if x = c then [] # split c xs
      else (case split c xs of p # ps \<Rightarrow> (x # p) # ps | [] \<Rightarrow> [[x]]))"

definition errorLogData :: "js_error \<Rightarrow> int \<Rightarrow> request \<Rightarrow> (string \<times> jsval) list" where
  "errorLogData error sc request =
     [(''error'', JStr (message error)), (''statusCode'', JNum sc),
      (''method'', JStr (reqMethod request)), (''url'', JStr (url request)),
      (''userAgent'', optStr (header request ''user-agent'')),
      (''ip'', JStr (ip request)), (''reqId'', JStr (reqId request))]
     @ (case validation error of Some v \<Rightarrow> [(''validation'', JArr v)] | None \<Rightarrow> [])"

text \<open>
  \<^verbatim>\<open>setErrorHandler\<close>. The handler logs, builds the body and ends with
  \<^verbatim>\<open>return reply.code(statusCode).send(errorResponse)\<close>, where \<^verbatim>\<open>statusCode\<close> is whatever number
  the error carries: the result is \<open>Inr\<close> the reply sent, or \<open>Inl\<close> the error \<^verbatim>\<open>reply.code\<close> throws
  for a number that is no HTTP status. The log entry is written before that call.
\<close>

definition errorHandler ::
  "env \<Rightarrow> runtime \<Rightarrow> js_error \<Rightarrow> request \<Rightarrow> (reply_error + reply) \<times> log_entry list" where
  "errorHandler e rt error request =
     (let sc = (case errStatusCode error of None \<Rightarrow> 500 | Some c \<Rightarrow> c);
          logged =
            (if sc \<ge> 500
             then \<lparr>level = LError,
                   logData = errorLogData error sc request @ [(''stack'', optStr (stack error))],
                   msg = ''Erreur serveur critique''\<rparr>
             else \<lparr>level = LWarn, logData = errorLogData error sc request,
                   msg = ''Erreur client''\<rparr>);
          safeMessage =
            (if IS_DEV e \<or> sc < 500 then message error else ''Une erreur interne est survenue'');
          errorResponse =
            [(''error'', JStr (case errName error of None \<Rightarrow> ''Error'' | Some n \<Rightarrow> n)),
             (''message'', JStr safeMessage),
             (''statusCode'', JNum sc),
             (''timestamp'', JStr (nowISO rt)),
             (''reqId'', JStr (reqId request))]
            @ (if IS_DEV e
               then (case stack error of
                       Some st \<Rightarrow>
                         (if sc \<ge> 500 \<and> st \<noteq> []
                          then [(''stack'', JArr (map JStr (take 10 (split (CHR 0x0A) st))))]
                          else [])
                     | None \<Rightarrow> [])
                    @ (case validation error of Some v \<Rightarrow> [(''validation'', JArr v)] | None \<Rightarrow> [])
               else [])
      in (case replyCode sc freshReply of
            Inl err \<Rightarrow> Inl err
          | Inr rep \<Rightarrow> Inr (send (JObj errorResponse) rep),
          [logged]))"

text \<open>\<^verbatim>\<open>String(n)\<close> for an integer.\<close>

function decimal :: "nat \<Rightarrow> string" where
  "decimal n =
     (if n < 10 then [char_of (48 + n)] else decimal (n div 10) @ [char_of (48 + n mod 10)])"
  by pat_completeness auto
termination
  by (relation "measure id") auto

definition showInt :: "int \<Rightarrow> string" where
  "showInt i = (if i < 0 then ''-'' @ decimal (nat (- i)) else decimal (nat i))"

text \<open>
  What the client receives for an error a route raised. When the installed handler returns,
  it is the reply the handler sent. When the installed handler itself throws, the error goes
  to the framework's default handler, which is not part of this repository: it answers with
  the status of the thrown error, 500 for \<^verbatim>\<open>FST_ERR_BAD_STATUS_CODE\<close>, and a body of its own.
\<close>

definition handleError ::
  "env \<Rightarrow> runtime \<Rightarrow> js_error \<Rightarrow> request \<Rightarrow> reply \<times> log_entry list" where
  "handleError e rt error request =
     (case errorHandler e rt error request of
        (Inr rep, lg) \<Rightarrow> (rep, lg)
      | (Inl (FST_ERR_BAD_STATUS_CODE n), lg) \<Rightarrow>
          (send (JObj [(''statusCode'', JNum 500),
                       (''code'', JStr ''FST_ERR_BAD_STATUS_CODE''),
                       (''error'', JStr ''Internal Server Error''),
                       (''message'', JStr (''Called reply with an invalid status code: '' @ showInt n))])
             (code 500 freshReply),
           lg))"

section \<open>Server construction and lifecycle\<close>

subsection \<open>The server instance\<close>

text \<open>
  What registration leaves on the Fastify instance: the names of the plugins registered
  through \<^verbatim>\<open>fastify-plugin\<close> (what \<^verbatim>\<open>hasPlugin\<close> answers), the decorators, the routes as method and
  URL, the lifecycle and request hooks with the plugin that added them, the two global
  handlers, and whether the listener is bound.
\<close>

record server =
  plugins :: "string list"
  decorators :: "string list"
  routes :: "(string \<times> string) list"
  hooks :: "(string \<times> string) list"
  notFoundHandlerSet :: bool
  errorHandlerSet :: bool
  listening :: bool

definition Fastify :: server where
  "Fastify = \<lparr>plugins = [], decorators = [], routes = [], hooks = [],
              notFoundHandlerSet = False, errorHandlerSet = False, listening = False\<rparr>"

definition hasPlugin :: "server \<Rightarrow> string \<Rightarrow> bool" where
  "hasPlugin s name = (name \<in> set (plugins s))"

text \<open>
  \<^verbatim>\<open>prismaPlugin\<close>: connects and probes the database, throwing when that fails; otherwise it
  decorates the instance with \<^verbatim>\<open>prisma\<close> and adds an \<^verbatim>\<open>onReady\<close> and an \<^verbatim>\<open>onClose\<close> hook.
\<close>

definition prismaPlugin :: "database \<Rightarrow> server \<Rightarrow> (string + server) \<times> log_entry list" where
  "prismaPlugin db s =
     (case queryRaw db of
        Inl err \<Rightarrow>
          (Inl (''Impossible de se connecter '' @ [CHR 0xC3, CHR 0xA0] @ '' PostgreSQL: '' @ err),
           [\<lparr>level = LError, logData = [(''error'', JStr err)], msg = ''Erreur de connexion PostgreSQL''\<rparr>])
      | Inr _ \<Rightarrow>
          (Inr (s\<lparr>plugins := plugins s @ [''prisma''],
                  decorators := decorators s @ [''prisma''],
                  hooks := hooks s @ [(''onReady'', ''prisma''), (''onClose'', ''prisma'')]\<rparr>),
           [\<lparr>level = LInfo, logData = [], msg = ''Plugin Prisma enregistr'' @ e_acute @ '' avec succ''
                @ [CHR 0xC3, CHR 0xA8] @ ''s''\<rparr>]))"

text \<open>
  \<^verbatim>\<open>createServer\<close> of \<^verbatim>\<open>server.ts\<close>: creates the instance, registers \<^verbatim>\<open>prismaPlugin\<close>, declares
  \<^verbatim>\<open>GET /health\<close> and \<^verbatim>\<open>GET /\<close>, installs the not-found and the error handler and returns the
  instance. An error of a step is logged at fatal level and thrown again.
\<close>

definition createServer :: "env \<Rightarrow> database \<Rightarrow> (string + server) \<times> log_entry list" where
  "createServer e db =
     (case prismaPlugin db Fastify of
        (Inl err, lg) \<Rightarrow>
          (Inl err,
           lg @ [\<lparr>level = LFatal, logData = [(''error'', JStr err)],
                  msg = ''Erreur fatale lors de la configuration du serveur''\<rparr>])
      | (Inr s, lg) \<Rightarrow>
          (Inr (s\<lparr>routes := routes s @ [(''GET'', ''/health''), (''GET'', ''/'')],
                  notFoundHandlerSet := True,
                  errorHandlerSet := True\<rparr>),
           lg @ [\<lparr>level = LInfo, logData = [],
                  msg = ''Configuration du serveur termin'' @ e_acute @ ''e avec succ''
                        @ [CHR 0xC3, CHR 0xA8] @ ''s''\<rparr>]))"

subsection \<open>Start-up and shut-down\<close>

text \<open>
  The conditions \<^verbatim>\<open>startServer\<close> meets: the database when the plugins load, the database when
  the \<^verbatim>\<open>onReady\<close> hook probes it, and whether the port can be bound.
\<close>

record startup =
  bootDb :: database
  readyDb :: database
  portFree :: bool

text \<open>
  \<^verbatim>\<open>server.listen\<close> runs the \<^verbatim>\<open>onReady\<close> hooks, then binds the port; it throws when a hook throws
  or the port is taken. \<^verbatim>\<open>server.close\<close> unbinds the listener.
\<close>

definition listen :: "startup \<Rightarrow> server \<Rightarrow> string + server" where
  "listen w s =
     (case (if (''onReady'', ''prisma'') \<in> set (hooks s) then queryRaw (readyDb w) else Inr ()) of
        Inl err \<Rightarrow> Inl (''Health check base de donn'' @ e_acute @ ''es '' @ e_acute @ ''chou'' @ e_acute @ '': '' @ err)
      | Inr _ \<Rightarrow> (if portFree w then Inr (s\<lparr>listening := True\<rparr>) else Inl ''EADDRINUSE''))"

definition close :: "server \<Rightarrow> server" where
  "close s = s\<lparr>listening := False\<rparr>"

text \<open>
  The process: its exit status once \<^verbatim>\<open>process.exit\<close> has run, and the server instance if one was
  created. \<open>signalHandlers\<close> says whether the handlers of SIGINT, SIGTERM and SIGHUP are bound.
\<close>

record process =
  exitCode :: "int option"
  srv :: "server option"
  signalHandlers :: bool

definition acceptingTraffic :: "process \<Rightarrow> bool" where
  "acceptingTraffic p = (case srv p of None \<Rightarrow> False | Some s \<Rightarrow> listening s)"

text \<open>
  \<^verbatim>\<open>startServer\<close>: \<^verbatim>\<open>createServer\<close>, bind the signal handlers, \<^verbatim>\<open>listen\<close>. An error of any of these
  lands in the \<^verbatim>\<open>catch\<close>, which closes the server if it exists and exits with status 1. (The
  \<^verbatim>\<open>close\<close> of that clean-up is taken to settle; a failure of it is caught and logged.)
\<close>

definition startServer :: "env \<Rightarrow> startup \<Rightarrow> process" where
  "startServer e w =
     (case fst (createServer e (bootDb w)) of
        Inl err \<Rightarrow> \<lparr>exitCode = Some 1, srv = None, signalHandlers = False\<rparr>
      | Inr s \<Rightarrow>
          (case listen w s of
             Inl err \<Rightarrow> \<lparr>exitCode = Some 1, srv = Some (close s), signalHandlers = True\<rparr>
           | Inr s' \<Rightarrow> \<lparr>exitCode = None, srv = Some s', signalHandlers = True\<rparr>))"

text \<open>
  How \<^verbatim>\<open>await server.close()\<close> ends once a signal has arrived: it resolves or throws after so
  many milliseconds, or never settles. The handler arms a timer of 10000 ms that exits with
  status 1; when \<^verbatim>\<open>close\<close> resolves first the timer is cleared and the exit status is 0; when
  \<^verbatim>\<open>close\<close> throws first the \<^verbatim>\<open>catch\<close> exits with status 1. A \<^verbatim>\<open>close\<close> that settles at 10000 ms
  or later finds the timer fired.
\<close>

datatype close_result = CloseResolves nat | CloseThrows nat | CloseHangs

definition shutdownTimeout :: nat where
  "shutdownTimeout = 10000"

definition onSignal :: "close_result \<Rightarrow> process \<Rightarrow> process" where
  "onSignal c p =
     (if exitCode p \<noteq> None \<or> \<not> signalHandlers p then p
      else (case srv p of
              None \<Rightarrow> p
            | Some s \<Rightarrow>
                (case c of
                   CloseResolves d \<Rightarrow>
                     (if d < shutdownTimeout
                      then p\<lparr>exitCode := Some 0, srv := Some (close s)\<rparr>
                      else p\<lparr>exitCode := Some 1, srv := Some (close s)\<rparr>)
                 | CloseThrows d \<Rightarrow> p\<lparr>exitCode := Some 1, srv := Some (close s)\<rparr>
                 | CloseHangs \<Rightarrow> p\<lparr>exitCode := Some 1, srv := Some (close s)\<rparr>)))"

text \<open>
  A run of the process: start-up, then a termination signal if one arrives (\<open>Some c\<close>, with
  the way \<^verbatim>\<open>close\<close> ends), or none (\<open>None\<close>: the process keeps serving and has no exit status).
\<close>

definition run :: "env \<Rightarrow> startup \<Rightarrow> close_result option \<Rightarrow> process" where
  "run e w sig = (case sig of None \<Rightarrow> startServer e w | Some c \<Rightarrow> onSignal c (startServer e w))"

text \<open>
  The events the specification names. Start-up fails when a set-up step raises: \<^verbatim>\<open>createServer\<close>
  or \<^verbatim>\<open>listen\<close>. The shut-down is graceful when \<^verbatim>\<open>close\<close> resolves before the deadline; the
  deadline is exceeded when \<^verbatim>\<open>close\<close> has not settled by then; \<^verbatim>\<open>close\<close> fails when it throws
  before the deadline.
\<close>

definition startupFails :: "env \<Rightarrow> startup \<Rightarrow> bool" where
  "startupFails e w =
     (case fst (createServer e (bootDb w)) of
        Inl err \<Rightarrow> True
      | Inr s \<Rightarrow> (case listen w s of Inl err \<Rightarrow> True | Inr s' \<Rightarrow> False))"

definition closedGracefully :: "close_result option \<Rightarrow> bool" where
  "closedGracefully sig =
     (case sig of Some (CloseResolves d) \<Rightarrow> d < shutdownTimeout | _ \<Rightarrow> False)"

definition deadlineExceeded :: "close_result option \<Rightarrow> bool" where
  "deadlineExceeded sig =
     (case sig of
        Some (CloseResolves d) \<Rightarrow> shutdownTimeout \<le> d
      | Some (CloseThrows d) \<Rightarrow> shutdownTimeout \<le> d
      | Some CloseHangs \<Rightarrow> True
      | None \<Rightarrow> False)"

definition closeFailed :: "close_result option \<Rightarrow> bool" where
  "closeFailed sig =
     (case sig of Some (CloseThrows d) \<Rightarrow> d < shutdownTimeout | _ \<Rightarrow> False)"

section \<open>Concrete inputs\<close>

text \<open>Environments, requests and stores at which the theorems below are instantiated.\<close>

definition devEnv :: env where
  "devEnv = \<lparr>NODE_ENV = Some ''development'', JWT_SECRET = None\<rparr>"

definition prodEnv :: env where
  "prodEnv = \<lparr>NODE_ENV = Some ''production'', JWT_SECRET = Some ''a-production-secret''\<rparr>"

definition testEnv :: env where
  "testEnv = \<lparr>NODE_ENV = Some ''test'', JWT_SECRET = None\<rparr>"

definition someRuntime :: runtime where
  "someRuntime = \<lparr>nowISO = ''2025-09-11T18:26:18.000Z'', uptimeSeconds = 42,
                   npm_package_version = None, heapUsedMB = 30, heapTotalMB = 60,
                   heapPercentage = 50, queryTime = 3\<rparr>"

definition bearerRequest :: request where
  "bearerRequest = \<lparr>reqMethod = ''POST'', url = ''/api/items'', ip = ''10.0.0.1'',
                     headers = [(''authorization'', ''Bearer abc'')], cookies = None,
                     query = None, reqId = ''req-1''\<rparr>"

definition queryRequest :: request where
  "queryRequest = \<lparr>reqMethod = ''GET'', url = ''/api/items?token=abc'', ip = ''10.0.0.1'',
                    headers = [], cookies = None, query = Some [(''token'', JStr ''abc'')],
                    reqId = ''req-2''\<rparr>"

definition healthRequest :: request where
  "healthRequest = \<lparr>reqMethod = ''GET'', url = ''/health'', ip = ''10.0.0.1'',
                     headers = [], cookies = None, query = Some [], reqId = ''req-3''\<rparr>"

definition upDb :: database where
  "upDb = \<lparr>reachable = True, writable = True, healthChecks = []\<rparr>"

definition downDb :: database where
  "downDb = \<lparr>reachable = False, writable = False, healthChecks = []\<rparr>"

definition expiredTokens :: jwt where
  "expiredTokens = \<lparr>verifyToken = (\<lambda>t. Inl ''The token has expired.''),
                     noTokenMessage = ''No Authorization was found in request''\<rparr>"

definition writingHandler :: "request \<Rightarrow> jsval option \<Rightarrow> database \<Rightarrow> reply \<Rightarrow> reply \<times> database" where
  "writingHandler request user db rep =
     (send (JObj [(''success'', JBool True)]) (code 201 rep),
      db\<lparr>healthChecks := healthChecks db @ [\<lparr>hcStatus = ''test'', hcMessage = ''written''\<rparr>]\<rparr>)"

definition serverFault :: js_error where
  "serverFault = \<lparr>errName = Some ''Error'', message = ''connect ECONNREFUSED 10.0.0.5:5432'',
                   errStatusCode = None, stack = Some ''Error: connect ECONNREFUSED'',
                   validation = None\<rparr>"

definition clientFault :: js_error where
  "clientFault = \<lparr>errName = Some ''FastifyError'', message = ''body must be object'',
                   errStatusCode = Some 400, stack = Some ''FastifyError: body must be object'',
                   validation = None\<rparr>"

definition outOfRangeFault :: js_error where
  "outOfRangeFault = \<lparr>errName = Some ''Error'', message = ''upstream answered 600'',
                       errStatusCode = Some 600, stack = Some ''Error: upstream answered 600'',
                       validation = None\<rparr>"

definition goodStartup :: startup where
  "goodStartup = \<lparr>bootDb = upDb, readyDb = upDb, portFree = True\<rparr>"

definition portTaken :: startup where
  "portTaken = \<lparr>bootDb = upDb, readyDb = upDb, portFree = False\<rparr>"

section \<open>Theorems\<close>

lemmas sample_defs = devEnv_def prodEnv_def testEnv_def someRuntime_def bearerRequest_def
  queryRequest_def healthRequest_def upDb_def downDb_def expiredTokens_def writingHandler_def
  serverFault_def clientFault_def outOfRangeFault_def goodStartup_def portTaken_def

subsection \<open>Server construction\<close>

lemma createServer_up:
  "reachable db \<Longrightarrow>
   fst (createServer e db) =
     Inr \<lparr>plugins = [''prisma''], decorators = [''prisma''],
          routes = [(''GET'', ''/health''), (''GET'', ''/'')],
          hooks = [(''onReady'', ''prisma''), (''onClose'', ''prisma'')],
          notFoundHandlerSet = True, errorHandlerSet = True, listening = False\<rparr>"
  by (simp add: createServer_def prismaPlugin_def queryRaw_def Fastify_def)

lemma createServer_down: "\<not> reachable db \<Longrightarrow> isl (fst (createServer e db))"
  by (simp add: createServer_def prismaPlugin_def queryRaw_def)

text \<open>
  C1. The specification has \<^verbatim>\<open>createServer\<close> register the security middleware stack, the
  documentation publisher, the route registrar and the persistence connector, and install the
  not-found and error handlers, before the server listens, so that every request passes
  through the security middleware. What \<^verbatim>\<open>createServer\<close> builds with a reachable database (mode
  \<^verbatim>\<open>test\<close>, as the test suite runs it): the two global handlers are installed and the listener
  is not yet bound, but the only plugin registered is \<^verbatim>\<open>prisma\<close>; \<^verbatim>\<open>security\<close>, \<^verbatim>\<open>swagger\<close> and
  \<^verbatim>\<open>routes\<close> are not, there is no \<^verbatim>\<open>authenticate\<close> decorator, the only routes are \<^verbatim>\<open>GET /health\<close>
  and \<^verbatim>\<open>GET /\<close>, and the only hooks are the persistence plugin's.
\<close>

theorem createServer_registers_prisma_only:
  "\<exists>s. fst (createServer testEnv upDb) = Inr s
       \<and> plugins s = [''prisma'']
       \<and> \<not> hasPlugin s ''security'' \<and> \<not> hasPlugin s ''swagger'' \<and> \<not> hasPlugin s ''routes''
       \<and> ''authenticate'' \<notin> set (decorators s)
       \<and> routes s = [(''GET'', ''/health''), (''GET'', ''/'')]
       \<and> map snd (hooks s) = [''prisma'', ''prisma'']
       \<and> notFoundHandlerSet s \<and> errorHandlerSet s \<and> \<not> listening s"
  by (simp add: createServer_up upDb_def hasPlugin_def)

subsection \<open>Health endpoints\<close>

text \<open>
  C2, as the code has it. The namespaced probe \<^verbatim>\<open>GET /api/system/health\<close> always answers with
  HTTP status 200; its status field is \<^verbatim>\<open>degraded\<close> when the database probe fails (the raw query
  or the write of the health record raises) and \<^verbatim>\<open>healthy\<close> when it succeeds. The root endpoint
  \<^verbatim>\<open>GET /health\<close> makes no database probe: it answers 200 with status \<^verbatim>\<open>healthy\<close> whatever the
  state of the database, and leaves the store untouched.
\<close>

theorem health_endpoints_status:
  "(case systemHealth e rt request db of
      (rep, db', lg) \<Rightarrow>
        statusCode rep = 200
        \<and> bodyField rep ''status''
            = Some (JStr (if isl (queryRaw db)
                             \<or> isl (healthCheckCreate
                                      \<lparr>hcStatus = ''healthy'',
                                       hcMessage = ''Health check from '' @ ip request\<rparr> db)
                          then ''degraded'' else ''healthy'')))
   \<and> (case rootHealth e rt request db of
        (rep, db', lg) \<Rightarrow>
          statusCode rep = 200 \<and> bodyField rep ''status'' = Some (JStr ''healthy'') \<and> db' = db)"
  by (simp add: systemHealth_def rootHealth_def queryRaw_def healthCheckCreate_def send_def
        freshReply_def bodyField_def)

text \<open>
  For \<^verbatim>\<open>GET /health\<close> a failing database does not degrade the status: with the database down,
  the status field is \<^verbatim>\<open>healthy\<close>, not \<^verbatim>\<open>degraded\<close>.
\<close>

theorem root_health_counterexample:
  "isl (queryRaw downDb)
   \<and> bodyField (fst (rootHealth prodEnv someRuntime healthRequest downDb)) ''status''
       = Some (JStr ''healthy'')
   \<and> bodyField (fst (rootHealth prodEnv someRuntime healthRequest downDb)) ''status''
       \<noteq> Some (JStr ''degraded'')"
  by (simp add: rootHealth_def queryRaw_def send_def freshReply_def bodyField_def sample_defs)

subsection \<open>The authenticate decorator\<close>

lemma authenticate_failure:
  assumes "jwtVerify lib e request = (Inl m, lg)"
  shows "authenticate lib e request rep =
           Inr (send unauthorizedBody (code 401 rep), None, lg @ [authFailureLog m request])"
  using assms by (simp add: authenticate_def)

text \<open>
  C3. When token verification fails for a request to a guarded route (the token is absent,
  invalid or expired: \<^verbatim>\<open>jwtVerify\<close> throws), nothing is thrown past the route: the result is a
  reply with status 401 and body \<^verbatim>\<open>{error, message, code: "UNAUTHORIZED"}\<close>, a warning is logged
  with the client IP, the method and the URL, and the handler does not run: whatever the
  handler is, the state it could write to is unchanged.
\<close>

theorem authenticate_rejects_before_handler:
  assumes "isl (fst (jwtVerify lib e request))"
  shows "\<exists>rep lg. guardedRoute lib e handler request st = Inr (rep, st, lg)
           \<and> statusCode rep = 401 \<and> sent rep
           \<and> (\<exists>err m. body rep = JObj [(''error'', JStr err), (''message'', JStr m),
                                       (''code'', JStr ''UNAUTHORIZED'')])
           \<and> (\<exists>l \<in> set lg. level l = LWarn
                 \<and> logField l ''ip'' = Some (JStr (ip request))
                 \<and> logField l ''method'' = Some (JStr (reqMethod request))
                 \<and> logField l ''url'' = Some (JStr (url request)))"
proof -
  obtain m lg where v: "jwtVerify lib e request = (Inl m, lg)"
    using assms by (cases "jwtVerify lib e request") (auto simp: isl_def)
  have a: "authenticate lib e request freshReply =
             Inr (send unauthorizedBody (code 401 freshReply), None, lg @ [authFailureLog m request])"
    by (rule authenticate_failure [OF v])
  have g: "guardedRoute lib e handler request st =
             Inr (send unauthorizedBody (code 401 freshReply), st, lg @ [authFailureLog m request])"
    by (simp add: guardedRoute_def a send_def)
  have l: "level (authFailureLog m request) = LWarn
             \<and> logField (authFailureLog m request) ''ip'' = Some (JStr (ip request))
             \<and> logField (authFailureLog m request) ''method'' = Some (JStr (reqMethod request))
             \<and> logField (authFailureLog m request) ''url'' = Some (JStr (url request))"
    by (simp add: authFailureLog_def logField_def)
  have b: "\<exists>err m'. body (send unauthorizedBody (code 401 freshReply)) =
             JObj [(''error'', JStr err), (''message'', JStr m'), (''code'', JStr ''UNAUTHORIZED'')]"
    by (simp add: send_def unauthorizedBody_def)
  have s: "statusCode (send unauthorizedBody (code 401 freshReply)) = 401
             \<and> sent (send unauthorizedBody (code 401 freshReply))"
    by (simp add: send_def code_def)
  have i: "authFailureLog m request \<in> set (lg @ [authFailureLog m request])"
    by simp
  show ?thesis
    unfolding g using l b s i by blast
qed

text \<open>
  At a request with a bearer token that the verifier rejects as expired, against a handler
  that writes a row: the reply is the 401, the store is as before.
\<close>

theorem authenticate_rejects_before_handler_witness:
  "isl (fst (jwtVerify expiredTokens prodEnv bearerRequest))
   \<and> guardedRoute expiredTokens prodEnv writingHandler bearerRequest upDb
       = Inr (\<lparr>statusCode = 401, sent = True, body = unauthorizedBody\<rparr>, upDb,
              [authFailureLog ''The token has expired.'' bearerRequest])"
  using authenticate_rejects_before_handler [where lib = expiredTokens and e = prodEnv
        and request = bearerRequest and handler = writingHandler and st = upDb]
  by (simp add: guardedRoute_def authenticate_def jwtVerify_def extractToken_def header_def
        truthy_def isDev_def startsWith_def substring_def Let_def send_def code_def freshReply_def
        sample_defs)

subsection \<open>Global error handler\<close>

text \<open>
  C4, as the code has it. For every failure that reaches the error handler and carries no
  status code or one that is an HTTP status (100 to 599): the handler answers, the response
  status is the status code the error carries, 500 when it carries none; a status of 500 or
  more is logged at error level with the stack trace, a lower one at warning level without
  it; the response message is the error's own message in development mode or when the status
  is below 500, and the generic message for a status of 500 or more outside development mode.
\<close>

theorem errorHandler_contract:
  assumes "case errStatusCode error of None \<Rightarrow> True | Some c \<Rightarrow> 100 \<le> c \<and> c \<le> 599"
  shows "\<exists>rep l. errorHandler e rt error request = (Inr rep, [l])
           \<and> handleError e rt error request = (rep, [l])
           \<and> statusCode rep = (case errStatusCode error of None \<Rightarrow> 500 | Some c \<Rightarrow> c)
           \<and> (500 \<le> statusCode rep \<longrightarrow>
                level l = LError \<and> logField l ''stack'' = Some (optStr (stack error)))
           \<and> (statusCode rep < 500 \<longrightarrow> level l = LWarn \<and> logField l ''stack'' = None)
           \<and> (nodeEnv e = ''development'' \<or> statusCode rep < 500 \<longrightarrow>
                bodyField rep ''message'' = Some (JStr (message error)))
           \<and> (nodeEnv e \<noteq> ''development'' \<and> 500 \<le> statusCode rep \<longrightarrow>
                bodyField rep ''message'' = Some (JStr ''Une erreur interne est survenue''))"
proof -
  define sc where "sc = (case errStatusCode error of None \<Rightarrow> 500 | Some c \<Rightarrow> c)"
  have range: "100 \<le> sc \<and> sc \<le> 599"
    using assms by (simp add: sc_def split: option.splits)
  then have c: "replyCode sc freshReply = Inr (code sc freshReply)"
    by (simp add: replyCode_def)
  obtain rep l where h: "errorHandler e rt error request = (Inr rep, [l])"
    by (simp add: errorHandler_def Let_def c sc_def [symmetric])
  have s: "statusCode rep = sc"
    using h by (auto simp: errorHandler_def Let_def c sc_def [symmetric] send_def code_def)
  have lv: "level l = (if 500 \<le> sc then LError else LWarn)"
    using h by (auto simp: errorHandler_def Let_def c sc_def [symmetric])
  have st: "logField l ''stack'' = (if 500 \<le> sc then Some (optStr (stack error)) else None)"
    using h
    by (auto simp: errorHandler_def Let_def c sc_def [symmetric] logField_def errorLogData_def
          split: option.splits)
  have m: "bodyField rep ''message'' =
             Some (JStr (if nodeEnv e = ''development'' \<or> sc < 500 then message error
                         else ''Une erreur interne est survenue''))"
    using h unfolding errorHandler_def Let_def sc_def [symmetric] c
    by (auto simp: send_def code_def freshReply_def bodyField_def IS_DEV_def)
  have f: "handleError e rt error request = (rep, [l])"
    by (simp add: handleError_def h)
  show ?thesis
    using h f s lv st m by (auto simp: sc_def)
qed

theorem errorHandler_contract_witness:
  "errStatusCode serverFault = None \<and> errStatusCode clientFault = Some 400
   \<and> statusCode (fst (handleError prodEnv someRuntime serverFault bearerRequest)) = 500
   \<and> map level (snd (handleError prodEnv someRuntime serverFault bearerRequest)) = [LError]
   \<and> bodyField (fst (handleError prodEnv someRuntime serverFault bearerRequest)) ''message''
        = Some (JStr ''Une erreur interne est survenue'')
   \<and> bodyField (fst (handleError devEnv someRuntime serverFault bearerRequest)) ''message''
        = Some (JStr ''connect ECONNREFUSED 10.0.0.5:5432'')
   \<and> statusCode (fst (handleError prodEnv someRuntime clientFault bearerRequest)) = 400
   \<and> map level (snd (handleError prodEnv someRuntime clientFault bearerRequest)) = [LWarn]
   \<and> bodyField (fst (handleError prodEnv someRuntime clientFault bearerRequest)) ''message''
        = Some (JStr ''body must be object'')"
  using errorHandler_contract [where error = serverFault and e = prodEnv and rt = someRuntime
        and request = bearerRequest]
    errorHandler_contract [where error = serverFault and e = devEnv and rt = someRuntime
        and request = bearerRequest]
    errorHandler_contract [where error = clientFault and e = prodEnv and rt = someRuntime
        and request = bearerRequest]
  by (simp add: handleError_def errorHandler_def replyCode_def Let_def send_def code_def
        freshReply_def bodyField_def IS_DEV_def nodeEnv_def sample_defs)

text \<open>
  The response status is not the carried status code for every failure: for an error that
  carries 600, \<^verbatim>\<open>reply.code(600)\<close> throws inside the handler, after the log entry is written, and
  the response has status 500 and not the error's own message.
\<close>

theorem errorHandler_status_counterexample:
  "errStatusCode outOfRangeFault = Some 600
   \<and> fst (errorHandler devEnv someRuntime outOfRangeFault bearerRequest)
       = Inl (FST_ERR_BAD_STATUS_CODE 600)
   \<and> statusCode (fst (handleError devEnv someRuntime outOfRangeFault bearerRequest)) = 500
   \<and> statusCode (fst (handleError devEnv someRuntime outOfRangeFault bearerRequest)) \<noteq> 600
   \<and> bodyField (fst (handleError devEnv someRuntime outOfRangeFault bearerRequest)) ''message''
       \<noteq> Some (JStr (message outOfRangeFault))"
  by (simp add: handleError_def errorHandler_def replyCode_def Let_def send_def code_def
        freshReply_def bodyField_def sample_defs)

subsection \<open>Not-found handler\<close>

text \<open>
  C5. A request that matches no registered route is answered with status 404 exactly, by a
  body with \<^verbatim>\<open>error: "Not Found"\<close>, a message that contains the request's method and path,
  \<^verbatim>\<open>statusCode: 404\<close> and a timestamp; the list of known routes is in the body if and only if the
  deployment mode is development.
\<close>

theorem notFound_contract:
  assumes "router request = None"
  shows "case dispatch router e rt request st of
           (rep, st', lg) \<Rightarrow>
             statusCode rep = 404 \<and> st' = st
             \<and> bodyField rep ''error'' = Some (JStr ''Not Found'')
             \<and> (\<exists>m. bodyField rep ''message'' = Some (JStr m)
                     \<and> sublist (reqMethod request) m \<and> sublist (url request) m)
             \<and> bodyField rep ''statusCode'' = Some (JNum 404)
             \<and> bodyField rep ''timestamp'' = Some (JStr (nowISO rt))
             \<and> ((bodyField rep ''availableRoutes'' \<noteq> None) = (nodeEnv e = ''development''))"
proof -
  have m1: "sublist (reqMethod request)
              (''Route '' @ reqMethod request @ '' '' @ url request @ '' non trouv'' @ e_acute @ ''e'')"
    by (rule sublist_appendI)
  have m2: "sublist (url request)
              ((''Route '' @ reqMethod request @ '' '') @ url request @ ('' non trouv'' @ e_acute @ ''e''))"
    by (rule sublist_appendI)
  from m1 m2 assms show ?thesis
    by (simp add: dispatch_def notFoundHandler_def send_def code_def freshReply_def
          bodyField_def IS_DEV_def)
qed

theorem notFound_contract_witness:
  "statusCode (fst (dispatch (\<lambda>r. None) prodEnv someRuntime bearerRequest upDb)) = 404
   \<and> bodyField (fst (dispatch (\<lambda>r. None) prodEnv someRuntime bearerRequest upDb)) ''message''
        = Some (JStr (''Route POST /api/items non trouv'' @ e_acute @ ''e''))
   \<and> bodyField (fst (dispatch (\<lambda>r. None) prodEnv someRuntime bearerRequest upDb)) ''availableRoutes''
        = None
   \<and> bodyField (fst (dispatch (\<lambda>r. None) devEnv someRuntime bearerRequest upDb)) ''availableRoutes''
        = Some (JArr [JStr ''GET /'', JStr ''GET /health''])"
  using notFound_contract [where router = "\<lambda>r. None" and request = bearerRequest and e = prodEnv
        and rt = someRuntime and st = upDb]
    notFound_contract [where router = "\<lambda>r. None" and request = bearerRequest and e = devEnv
        and rt = someRuntime and st = upDb]
  by (simp add: dispatch_def notFoundHandler_def send_def code_def freshReply_def bodyField_def
        IS_DEV_def nodeEnv_def sample_defs)

subsection \<open>Rate-limiter key\<close>

text \<open>
  C6. The rate limiter's client key is the forwarded-for header if it is non-empty, otherwise
  the real-ip header if it is non-empty, otherwise the peer address \<open>ip\<close> of the request: the
  first non-empty candidate wins.
\<close>

theorem keyGenerator_precedence:
  "keyGenerator request =
     firstNonEmpty [header request ''x-forwarded-for'', header request ''x-real-ip''] (ip request)"
  by (simp add: keyGenerator_def orElse_def split: option.split)

subsection \<open>Token extraction\<close>




subsection \<open>Health records\<close>

text \<open>
  C8. A run of the namespaced health probe reports \<^verbatim>\<open>healthy\<close> exactly when it has added one
  health record. With a reachable, writable database the probe reports \<^verbatim>\<open>healthy\<close> and the
  record count grows by exactly one; a second probe right after it reports \<^verbatim>\<open>healthy\<close> again,
  and the two together grow the count by exactly two.
\<close>

theorem health_probe_adds_one_record:
  "((bodyField (fst (systemHealth e rt request db)) ''status'' = Some (JStr ''healthy''))
      = (healthCheckCount (fst (snd (systemHealth e rt request db))) = healthCheckCount db + 1))
   \<and> (reachable db \<and> writable db \<longrightarrow>
        (case systemHealth e rt request db of
           (rep1, db1, lg1) \<Rightarrow>
             bodyField rep1 ''status'' = Some (JStr ''healthy'')
             \<and> healthCheckCount db1 = healthCheckCount db + 1
             \<and> (case systemHealth e rt' request' db1 of
                  (rep2, db2, lg2) \<Rightarrow>
                    bodyField rep2 ''status'' = Some (JStr ''healthy'')
                    \<and> healthCheckCount db2 = healthCheckCount db + 2)))"
  by (simp add: systemHealth_def queryRaw_def healthCheckCreate_def healthCheckCount_def send_def
        freshReply_def bodyField_def)

theorem health_probe_adds_one_record_witness:
  "reachable upDb \<and> writable upDb
   \<and> healthCheckCount upDb = 0
   \<and> healthCheckCount (fst (snd (systemHealth testEnv someRuntime healthRequest upDb))) = 1
   \<and> healthCheckCount
        (fst (snd (systemHealth testEnv someRuntime healthRequest
                     (fst (snd (systemHealth testEnv someRuntime healthRequest upDb)))))) = 2"
  using health_probe_adds_one_record [where e = testEnv and rt = someRuntime and request = healthRequest
        and db = upDb and rt' = someRuntime and request' = healthRequest]
  by (simp add: systemHealth_def queryRaw_def healthCheckCreate_def healthCheckCount_def send_def
        freshReply_def bodyField_def sample_defs)

subsection \<open>Exit status\<close>

lemma startServer_cases:
  "startServer e w =
     (if \<not> reachable (bootDb w) then \<lparr>exitCode = Some 1, srv = None, signalHandlers = False\<rparr>
      else if \<not> reachable (readyDb w) \<or> \<not> portFree w
      then \<lparr>exitCode = Some 1,
            srv = Some \<lparr>plugins = [''prisma''], decorators = [''prisma''],
                        routes = [(''GET'', ''/health''), (''GET'', ''/'')],
                        hooks = [(''onReady'', ''prisma''), (''onClose'', ''prisma'')],
                        notFoundHandlerSet = True, errorHandlerSet = True, listening = False\<rparr>,
            signalHandlers = True\<rparr>
      else \<lparr>exitCode = None,
            srv = Some \<lparr>plugins = [''prisma''], decorators = [''prisma''],
                        routes = [(''GET'', ''/health''), (''GET'', ''/'')],
                        hooks = [(''onReady'', ''prisma''), (''onClose'', ''prisma'')],
                        notFoundHandlerSet = True, errorHandlerSet = True, listening = True\<rparr>,
            signalHandlers = True\<rparr>)"
  by (simp add: startServer_def createServer_def prismaPlugin_def queryRaw_def Fastify_def
        listen_def close_def)

lemma startupFails_iff:
  "startupFails e w = (\<not> reachable (bootDb w) \<or> \<not> reachable (readyDb w) \<or> \<not> portFree w)"
  by (simp add: startupFails_def createServer_def prismaPlugin_def queryRaw_def Fastify_def
        listen_def)

text \<open>
  C9, as the code has it. The exit status is 0 exactly when start-up succeeded and, after a
  termination signal, the server closed before the 10000 ms deadline. It is 1 exactly when
  start-up failed (a set-up step raised), or the deadline was exceeded, or closing the server
  raised an error before the deadline. A start-up failure never leaves the server accepting
  traffic.
\<close>

theorem exit_status_contract:
  "((exitCode (run e w sig) = Some 0) = (\<not> startupFails e w \<and> closedGracefully sig))
   \<and> ((exitCode (run e w sig) = Some 1)
        = (startupFails e w \<or> deadlineExceeded sig \<or> closeFailed sig))
   \<and> (startupFails e w \<longrightarrow> \<not> acceptingTraffic (run e w sig))"
  by (auto simp: run_def onSignal_def startServer_cases startupFails_iff closedGracefully_def
        deadlineExceeded_def closeFailed_def acceptingTraffic_def close_def
      split: option.splits close_result.splits)

theorem exit_status_contract_witness:
  "startupFails prodEnv portTaken
   \<and> exitCode (run prodEnv portTaken None) = Some 1
   \<and> \<not> acceptingTraffic (run prodEnv portTaken None)
   \<and> exitCode (run prodEnv goodStartup (Some (CloseResolves 120))) = Some 0
   \<and> exitCode (run prodEnv goodStartup (Some CloseHangs)) = Some 1
   \<and> exitCode (run prodEnv goodStartup None) = None"
  using exit_status_contract [where e = prodEnv and w = portTaken and sig = None]
  by (simp add: run_def onSignal_def startServer_cases startupFails_iff acceptingTraffic_def
        close_def shutdownTimeout_def sample_defs)

text \<open>
  Status 1 is not confined to a failed start-up and an exceeded deadline: when
  \<^verbatim>\<open>server.close()\<close> throws 5 ms after the signal, the exit status is 1, although start-up had
  succeeded and the deadline was not exceeded.
\<close>

theorem close_failure_counterexample:
  "exitCode (run prodEnv goodStartup (Some (CloseThrows 5))) = Some 1
   \<and> \<not> startupFails prodEnv goodStartup
   \<and> \<not> deadlineExceeded (Some (CloseThrows 5))"
  by (simp add: run_def onSignal_def startServer_cases startupFails_iff deadlineExceeded_def
        shutdownTimeout_def sample_defs)

subsection \<open>A mode that is neither development nor production\<close>

text \<open>
  C10. The security plugin reads the mode as two independent booleans. When the mode is
  neither \<^verbatim>\<open>development\<close> nor \<^verbatim>\<open>production\<close> (\<^verbatim>\<open>test\<close>, say), both are false: the plugin loads
  without error, the CORS origin is the production allow-list and the rate-limit ceiling is the
  production one of 100 (the same values as under \<^verbatim>\<open>production\<close>, where strict-transport-security
  is on), strict-transport-security is off, and with the JWT secret variable unset the secret
  is the development default, where production would fail at start-up.
\<close>

theorem neither_mode_configuration:
  assumes "NODE_ENV e \<noteq> Some ''development''" and "NODE_ENV e \<noteq> Some ''production''"
  shows "\<not> isDev e \<and> \<not> isProd e
    \<and> (\<exists>cfg lg. securityPlugin e = Inr (cfg, lg)
          \<and> corsOrigin cfg = AllowList [''https://logetogo.tg'', ''https://www.logetogo.tg'',
                                         ''https://admin.logetogo.tg'', ''https://app.logetogo.tg'']
          \<and> rateLimitMax cfg = 100
          \<and> hsts cfg = None
          \<and> (JWT_SECRET e = None \<longrightarrow> jwtSecret cfg = ''dev-jwt-secret-32-chars-minimum-change'')
          \<and> (\<forall>cfgP lgP. securityPlugin (e\<lparr>NODE_ENV := Some ''production''\<rparr>) = Inr (cfgP, lgP) \<longrightarrow>
                corsOrigin cfgP = corsOrigin cfg \<and> rateLimitMax cfgP = rateLimitMax cfg
                \<and> hsts cfgP \<noteq> None))
    \<and> (JWT_SECRET e = None \<longrightarrow> isl (securityPlugin (e\<lparr>NODE_ENV := Some ''production''\<rparr>)))"
  using assms
  by (auto simp: securityPlugin_def jwtSecretOption_def isDev_def isProd_def productionOrigins_def
        defaultJwtSecret_def split: option.splits sum.splits if_splits)

theorem neither_mode_configuration_witness:
  "NODE_ENV testEnv = Some ''test'' \<and> JWT_SECRET testEnv = None
   \<and> securityPlugin testEnv =
     Inr (\<lparr>corsOrigin = AllowList productionOrigins, corsMaxAge = 86400,
           connectSrc = [[CHR 0x27] @ ''self'' @ [CHR 0x27]], upgradeInsecureRequests = False,
           hsts = None, rateLimitMax = 100, jwtSecret = defaultJwtSecret, cookieSecure = False,
           cookieSameSite = ''lax'', securityTestRoute = False\<rparr>,
          [\<lparr>level = LWarn, logData = [],
            msg = ''Utilisation de la cl'' @ e_acute @ '' JWT par d'' @ e_acute
                  @ ''faut (dev uniquement)''\<rparr>])"
  using neither_mode_configuration [where e = testEnv]
  by (simp add: securityPlugin_def jwtSecretOption_def isDev_def isProd_def sample_defs)

end
